theory Spec2Isabelle
  imports Complex_Main
begin

section \<open>JavaScript numbers\<close>

text \<open>
  A JavaScript \<^verbatim>\<open>number\<close> is a finite value, one of the two infinities, or NaN. A
  finite value is the real number it stands for. The sign of zero is not part of this
  model (a zero divisor is taken as \<^verbatim>\<open>+0\<close>); infinities and NaN follow the IEEE rules
  that JavaScript uses.
\<close>

datatype jsnum = Fin real | PInf | NInf | NaN

text \<open>
  The result of \<^verbatim>\<open>+\<close>, \<^verbatim>\<open>-\<close>, \<^verbatim>\<open>*\<close> and \<^verbatim>\<open>/\<close> on finite operands is the exact result
  rounded to a number. The rounding and the number \<^verbatim>\<open>Math.PI\<close> make up the arithmetic
  of the platform, a parameter of every function that computes: \<open>double\<close> below is
  the arithmetic of JavaScript, \<open>exact\<close> the one that does not round.
\<close>

record arithmetic =
  rounding :: "real \<Rightarrow> jsnum"
  Math_PI :: jsnum

fun js_neg :: "jsnum \<Rightarrow> jsnum" where
  "js_neg (Fin a) = Fin (- a)"
| "js_neg PInf = NInf"
| "js_neg NInf = PInf"
| "js_neg NaN = NaN"

fun js_add :: "arithmetic \<Rightarrow> jsnum \<Rightarrow> jsnum \<Rightarrow> jsnum" where
  "js_add ar NaN _ = NaN"
| "js_add ar _ NaN = NaN"
| "js_add ar (Fin a) (Fin b) = rounding ar (a + b)"
| "js_add ar PInf NInf = NaN"
| "js_add ar NInf PInf = NaN"
| "js_add ar PInf _ = PInf"
| "js_add ar _ PInf = PInf"
| "js_add ar NInf _ = NInf"
| "js_add ar _ NInf = NInf"

definition js_sub :: "arithmetic \<Rightarrow> jsnum \<Rightarrow> jsnum \<Rightarrow> jsnum" where
  "js_sub ar a b = js_add ar a (js_neg b)"

fun js_mul :: "arithmetic \<Rightarrow> jsnum \<Rightarrow> jsnum \<Rightarrow> jsnum" where
  "js_mul ar NaN _ = NaN"
| "js_mul ar _ NaN = NaN"
| "js_mul ar (Fin a) (Fin b) = rounding ar (a * b)"
| "js_mul ar (Fin a) PInf = (if a = 0 then NaN else if 0 < a then PInf else NInf)"
| "js_mul ar (Fin a) NInf = (if a = 0 then NaN else if 0 < a then NInf else PInf)"
| "js_mul ar PInf (Fin b) = (if b = 0 then NaN else if 0 < b then PInf else NInf)"
| "js_mul ar NInf (Fin b) = (if b = 0 then NaN else if 0 < b then NInf else PInf)"
| "js_mul ar PInf PInf = PInf"
| "js_mul ar PInf NInf = NInf"
| "js_mul ar NInf PInf = NInf"
| "js_mul ar NInf NInf = PInf"

fun js_div :: "arithmetic \<Rightarrow> jsnum \<Rightarrow> jsnum \<Rightarrow> jsnum" where
  "js_div ar NaN _ = NaN"
| "js_div ar _ NaN = NaN"
| "js_div ar (Fin a) (Fin b) =
     (if b = 0 then (if a = 0 then NaN else if 0 < a then PInf else NInf)
      else rounding ar (a / b))"
| "js_div ar (Fin a) PInf = Fin 0"
| "js_div ar (Fin a) NInf = Fin 0"
| "js_div ar PInf (Fin b) = (if 0 \<le> b then PInf else NInf)"
| "js_div ar NInf (Fin b) = (if 0 \<le> b then NInf else PInf)"
| "js_div ar PInf PInf = NaN"
| "js_div ar PInf NInf = NaN"
| "js_div ar NInf PInf = NaN"
| "js_div ar NInf NInf = NaN"

text \<open>\<^verbatim>\<open>Math.abs\<close>.\<close>

fun js_abs :: "jsnum \<Rightarrow> jsnum" where
  "js_abs (Fin a) = Fin \<bar>a\<bar>"
| "js_abs PInf = PInf"
| "js_abs NInf = PInf"
| "js_abs NaN = NaN"

text \<open>The comparison \<^verbatim>\<open>a < b\<close>; every comparison with NaN is false.\<close>

fun js_lt :: "jsnum \<Rightarrow> jsnum \<Rightarrow> bool" where
  "js_lt NaN _ = False"
| "js_lt _ NaN = False"
| "js_lt (Fin a) (Fin b) = (a < b)"
| "js_lt (Fin a) PInf = True"
| "js_lt (Fin a) NInf = False"
| "js_lt PInf _ = False"
| "js_lt NInf NInf = False"
| "js_lt NInf _ = True"

definition js_gt :: "jsnum \<Rightarrow> jsnum \<Rightarrow> bool" where
  "js_gt a b = js_lt b a"

text \<open>\<^verbatim>\<open>Math.max\<close> of two numbers.\<close>

fun js_max :: "jsnum \<Rightarrow> jsnum \<Rightarrow> jsnum" where
  "js_max NaN _ = NaN"
| "js_max _ NaN = NaN"
| "js_max a b = (if js_lt a b then b else a)"

text \<open>
  A value read from the grid is a number or \<^verbatim>\<open>undefined\<close> (\<open>None\<close>). Where a number is
  needed, \<^verbatim>\<open>undefined\<close> converts to NaN, and \<^verbatim>\<open>isNaN(v)\<close> tests the converted value.
\<close>

fun toNumber :: "jsnum option \<Rightarrow> jsnum" where
  "toNumber None = NaN"
| "toNumber (Some a) = a"

definition isNaN :: "jsnum option \<Rightarrow> bool" where
  "isNaN v = (toNumber v = NaN)"

text \<open>
  \<^verbatim>\<open>~~v\<close> is ToInt32: NaN and the infinities give 0; a finite value is truncated
  toward zero and wrapped into the signed 32-bit range.
\<close>

definition trunc :: "real \<Rightarrow> int" where
  "trunc a = (if a < 0 then \<lceil>a\<rceil> else \<lfloor>a\<rfloor>)"

definition wrap32 :: "int \<Rightarrow> int" where
  "wrap32 i = (let m = i mod 2 ^ 32 in if 2 ^ 31 \<le> m then m - 2 ^ 32 else m)"

fun toInt32 :: "jsnum \<Rightarrow> int" where
  "toInt32 (Fin a) = wrap32 (trunc a)"
| "toInt32 _ = 0"

text \<open>The engine's \<^verbatim>\<open>CMath.TWO_PI\<close>, which it computes as \<^verbatim>\<open>2.0 * Math.PI\<close>.\<close>

definition TWO_PI :: "arithmetic \<Rightarrow> jsnum" where
  "TWO_PI ar = js_mul ar (Fin 2) (Math_PI ar)"


text \<open>The arithmetic that does not round, with \<^verbatim>\<open>Math.PI\<close> the number \<open>pi\<close>.\<close>

definition exact :: arithmetic where
  "exact = \<lparr>rounding = Fin, Math_PI = Fin pi\<rparr>"

text \<open>
  IEEE-754 binary64, round to nearest, ties to even. \<open>exponent_from\<close> finds \<open>e\<close> with
  \<open>2 ^ e \<le> x < 2 ^ (e + 1)\<close> by doubling or halving at most \<open>n\<close> times; below
  \<open>2 ^ - 1022\<close> the spacing stays that of the subnormal numbers. A number has 53
  significant bits, so its spacing is \<open>2 ^ (e - 52)\<close>; a result of magnitude
  \<open>2 ^ 1024\<close> overflows to an infinity.
\<close>

definition pow2 :: "int \<Rightarrow> real" where
  "pow2 k = (if 0 \<le> k then 2 ^ nat k else 1 / 2 ^ nat (- k))"

fun exponent_from :: "nat \<Rightarrow> real \<Rightarrow> int \<Rightarrow> int" where
  "exponent_from 0 x e = e"
| "exponent_from (Suc n) x e =
     (if x < 1 then exponent_from n (2 * x) (e - 1)
      else if 2 \<le> x then exponent_from n (x / 2) (e + 1)
      else e)"

definition round_even :: "real \<Rightarrow> int" where
  "round_even q =
     (let f = \<lfloor>q\<rfloor>; r = q - of_int f
      in if r < 1 / 2 then f else if 1 / 2 < r then f + 1 else if even f then f else f + 1)"

definition binary64 :: "real \<Rightarrow> jsnum" where
  "binary64 x =
     (if x = 0 then Fin 0
      else let e = max (exponent_from 2200 \<bar>x\<bar> 0) (- 1022);
               u = pow2 (e - 52);
               r = of_int (round_even (x / u)) * u
           in if 2 ^ 1024 \<le> r then PInf else if r \<le> - (2 ^ 1024) then NInf else Fin r)"

text \<open>
  The arithmetic of JavaScript: \<^verbatim>\<open>Math.PI\<close> is the double 3.141592653589793, that is
  \<open>884279719003555 / 2 ^ 48\<close>.
\<close>

definition double :: arithmetic where
  "double = \<lparr>rounding = binary64, Math_PI = Fin (884279719003555 / 281474976710656)\<rparr>"

text \<open>
  Reading \<^verbatim>\<open>arr[i]\<close> for an integer-valued \<^verbatim>\<open>i\<close>: \<^verbatim>\<open>undefined\<close> (\<open>None\<close>) outside
  \<^verbatim>\<open>0 .. arr.length - 1\<close>, never an exception.
\<close>

definition js_index :: "'a list \<Rightarrow> int \<Rightarrow> 'a option" where
  "js_index arr i = (if 0 \<le> i \<and> i < int (length arr) then Some (arr ! nat i) else None)"

section \<open>Data of the host engine\<close>

datatype cartesian2 = Cartesian2 jsnum jsnum

datatype cartesian3 = Cartesian3 jsnum jsnum jsnum

datatype matrix4 = Matrix4 "jsnum list"

record color =
  red :: jsnum
  green :: jsnum
  blue :: jsnum
  alpha :: jsnum

text \<open>\<^verbatim>\<open>Color.withAlpha\<close>: the same colour with another alpha.\<close>

definition withAlpha :: "color \<Rightarrow> jsnum \<Rightarrow> color" where
  "withAlpha c a = c\<lparr>alpha := a\<rparr>"

text \<open>
  A \<^verbatim>\<open>Rectangle\<close>: the four bounds in radians and the two derived spans that the engine
  reports as \<^verbatim>\<open>width\<close> and \<^verbatim>\<open>height\<close>, here under the names the updater gives them.
\<close>

record geo_rectangle =
  west :: jsnum
  south :: jsnum
  east :: jsnum
  north :: jsnum
  lonWidth :: jsnum
  latWidth :: jsnum

text \<open>The fields of a \<^verbatim>\<open>Particle\<close> that the updater reads or writes; \<open>None\<close> is \<^verbatim>\<open>null\<close>.\<close>

record particle =
  position :: cartesian3
  velocity :: cartesian3
  p_startColor :: color
  p_endColor :: color
  image :: "string option"

text \<open>
  The arithmetic of the platform and the functions of the engine that the code calls.
  They are parameters of the model: each function returns a value of its declared
  type, and nothing else is assumed about what it computes. \<open>fromRadians\<close> takes the
  height as an optional third argument.

  \<^verbatim>\<open>Color.fromCssColorString\<close> returns \<^verbatim>\<open>undefined\<close> for a string that is no CSS colour:
  \<open>isCssColor\<close> tells whether it returns a colour, and \<open>fromCssColorString\<close> is the
  colour it then returns.
\<close>

record host =
  arith :: arithmetic
  fromRadians :: "jsnum \<Rightarrow> jsnum \<Rightarrow> jsnum option \<Rightarrow> cartesian3"
  distance :: "cartesian3 \<Rightarrow> cartesian3 \<Rightarrow> jsnum"
  eastNorthUpToFixedFrame :: "cartesian3 \<Rightarrow> matrix4"
  isCssColor :: "string \<Rightarrow> bool"
  fromCssColorString :: "string \<Rightarrow> color"
  cartesianToCartographic :: "cartesian3 \<Rightarrow> jsnum \<times> jsnum"
  normalize :: "cartesian3 \<Rightarrow> cartesian3"
  multiplyByScalar :: "cartesian3 \<Rightarrow> jsnum \<Rightarrow> cartesian3"
  add :: "cartesian3 \<Rightarrow> cartesian3 \<Rightarrow> cartesian3"
  toDegrees :: "jsnum \<Rightarrow> jsnum"
  toRadians :: "jsnum \<Rightarrow> jsnum"

text \<open>
  A \<^verbatim>\<open>ParticleSystem\<close> (the emitter): the options \<^verbatim>\<open>init\<close> passes to its constructor, its
  visibility flag (an emitter is created visible), and an identity, since the scene
  holds the very object the instance refers to. Its \<^verbatim>\<open>updateCallback\<close> is the
  \<open>particleCallback\<close> of the instance that created it and has no field here.
\<close>

record emitter =
  ident :: nat
  ps_image :: string
  ps_minimumSpeed :: jsnum
  ps_maximumSpeed :: jsnum
  ps_startScale :: jsnum
  ps_endScale :: jsnum
  ps_emissionRate :: jsnum
  ps_emitter :: cartesian3
  ps_imageSize :: cartesian2
  ps_modelMatrix :: matrix4
  ps_minimumParticleLife :: jsnum
  ps_lifetime :: jsnum
  ps_startColor :: color
  ps_minimumImageSize :: cartesian2
  ps_maximumImageSize :: cartesian2
  ps_show :: bool

text \<open>The argument of \<^verbatim>\<open>camera.flyTo\<close>.\<close>

record flight =
  destination :: cartesian3
  heading :: jsnum
  pitch :: jsnum
  roll :: jsnum
  duration :: jsnum

text \<open>
  The scene: the identities of the emitters in its primitive collection, in insertion
  order, the number of emitters created so far (the next identity), and the last
  flight requested of the camera.
\<close>

record scene =
  primitives :: "nat list"
  created :: nat
  camera :: "flight option"

section \<open>ParticleHeatMap\<close>

record render_options =
  emissionRate :: jsnum
  startColor :: string
  upColor :: string
  downColor :: string
  lifetime :: jsnum
  scale :: jsnum
  maximumSpeed :: jsnum
  endScale :: jsnum
  height :: jsnum

text \<open>
  \<^verbatim>\<open>ParticleHeatMapRenderOptions\<close>: every key is absent (\<open>None\<close>) or holds a value of
  its declared type.
\<close>

record partial_options =
  emissionRate_opt :: "jsnum option"
  startColor_opt :: "string option"
  upColor_opt :: "string option"
  downColor_opt :: "string option"
  lifetime_opt :: "jsnum option"
  scale_opt :: "jsnum option"
  maximumSpeed_opt :: "jsnum option"
  endScale_opt :: "jsnum option"
  height_opt :: "jsnum option"

definition defaultOptions :: render_options where
  "defaultOptions =
     \<lparr>emissionRate = Fin 1000, startColor = ''rgba(0, 247, 255, 1)'',
      upColor = ''rgba(255, 255, 0, 1)'', downColor = ''rgba(0, 0, 255, 1)'',
      lifetime = Fin 12, scale = Fin 10, maximumSpeed = Fin 1, endScale = Fin 1,
      height = Fin 1000\<rparr>"

text \<open>The spread \<^verbatim>\<open>{ ...ro, ...options }\<close>: a key present in \<^verbatim>\<open>options\<close> wins.\<close>

definition spread :: "render_options \<Rightarrow> partial_options \<Rightarrow> render_options" where
  "spread ro options =
     \<lparr>emissionRate = (case emissionRate_opt options of None \<Rightarrow> emissionRate ro | Some v \<Rightarrow> v),
      startColor = (case startColor_opt options of None \<Rightarrow> startColor ro | Some v \<Rightarrow> v),
      upColor = (case upColor_opt options of None \<Rightarrow> upColor ro | Some v \<Rightarrow> v),
      downColor = (case downColor_opt options of None \<Rightarrow> downColor ro | Some v \<Rightarrow> v),
      lifetime = (case lifetime_opt options of None \<Rightarrow> lifetime ro | Some v \<Rightarrow> v),
      scale = (case scale_opt options of None \<Rightarrow> scale ro | Some v \<Rightarrow> v),
      maximumSpeed = (case maximumSpeed_opt options of None \<Rightarrow> maximumSpeed ro | Some v \<Rightarrow> v),
      endScale = (case endScale_opt options of None \<Rightarrow> endScale ro | Some v \<Rightarrow> v),
      height = (case height_opt options of None \<Rightarrow> height ro | Some v \<Rightarrow> v)\<rparr>"

text \<open>
  The instance. \<open>particleSystem\<close> is \<open>None\<close> for \<^verbatim>\<open>null\<close>; \<open>the_scene\<close> is
  \<^verbatim>\<open>viewer.scene\<close>.
\<close>

record heatmap =
  renderOptions :: render_options
  particleSystem :: "emitter option"
  particleParticleSize :: jsnum
  rectangle :: geo_rectangle
  data :: "jsnum list list"
  the_scene :: scene

datatype error =
  NotInitialized  \<comment> \<open>\<^verbatim>\<open>Error('have not initializated')\<close>\<close>
| TypeError       \<comment> \<open>reading a property of \<^verbatim>\<open>undefined\<close>\<close>

definition constructor :: "scene \<Rightarrow> geo_rectangle \<Rightarrow> jsnum list list \<Rightarrow> partial_options option \<Rightarrow> heatmap" where
  "constructor scn rect grid ro =
     \<lparr>renderOptions = (case ro of None \<Rightarrow> defaultOptions | Some options \<Rightarrow> spread defaultOptions options),
      particleSystem = None,
      particleParticleSize = Fin 12,
      rectangle = rect,
      data = grid,
      the_scene = scn\<rparr>"

text \<open>The getter \<^verbatim>\<open>center\<close>: longitude and latitude of the middle of the rectangle.\<close>

definition center :: "arithmetic \<Rightarrow> heatmap \<Rightarrow> jsnum \<times> jsnum" where
  "center ar s =
     (let r = rectangle s;
          lon = js_add ar (west r) (js_div ar (lonWidth r) (Fin 2));
          lon = (if js_gt lon (Math_PI ar) then js_sub ar lon (TWO_PI ar) else lon);
          lat = js_add ar (south r) (js_div ar (latWidth r) (Fin 2))
      in (lon, lat))"

definition resetCamera :: "host \<Rightarrow> jsnum \<Rightarrow> heatmap \<Rightarrow> error + heatmap" where
  "resetCamera h dur s =
     (let r = rectangle s; ar = arith h;
          hgt = js_add ar (js_mul ar (toDegrees h (js_max (lonWidth r) (latWidth r))) (Fin 80000))
                          (height (renderOptions s));
          fl = \<lparr>destination = fromRadians h (fst (center ar s))
                                 (js_sub ar (snd (center ar s)) (js_mul ar (latWidth r) (Fin 1.5)))
                                 (Some hgt),
                heading = toRadians h (Fin 0),
                pitch = toRadians h (Fin (- 35)),
                roll = toRadians h (Fin 0),
                duration = dur\<rparr>
      in Inr (s\<lparr>the_scene := (the_scene s)\<lparr>camera := Some fl\<rparr>\<rparr>))"

text \<open>
  \<^verbatim>\<open>init\<close>. There is no test of \<open>particleSystem\<close>: each call builds a new emitter, stores
  it in the instance and adds it to the scene. The options of the emitter are computed
  first; among them \<^verbatim>\<open>Color.fromCssColorString(startColor).withAlpha(0)\<close> calls a
  method on what the engine returns, which is a TypeError when that is \<^verbatim>\<open>undefined\<close>.
\<close>

definition new_emitter :: "host \<Rightarrow> heatmap \<Rightarrow> error + emitter" where
  "new_emitter h s =
     (let r = rectangle s; ro = renderOptions s;
          lonDistance = distance h (fromRadians h (west r) (north r) None)
                                   (fromRadians h (east r) (north r) None);
          latDistance = distance h (fromRadians h (west r) (north r) None)
                                   (fromRadians h (west r) (south r) None);
          size = particleParticleSize s
      in if isCssColor h (startColor ro)
         then Inr
           \<lparr>ident = created (the_scene s),
            ps_image = ''/smoke.png'',
            ps_minimumSpeed = Fin 0,
            ps_maximumSpeed = maximumSpeed ro,
            ps_startScale = Fin 0.5,
            ps_endScale = endScale ro,
            ps_emissionRate = emissionRate ro,
            ps_emitter = Cartesian3 lonDistance latDistance (Fin 1),
            ps_imageSize = Cartesian2 (Fin 25) (Fin 25),
            ps_modelMatrix = eastNorthUpToFixedFrame h
               (fromRadians h (fst (center (arith h) s)) (snd (center (arith h) s))
                  (Some (height ro))),
            ps_minimumParticleLife = Fin 1,
            ps_lifetime = lifetime ro,
            ps_startColor = withAlpha (fromCssColorString h (startColor ro)) (Fin 0),
            ps_minimumImageSize = Cartesian2 size size,
            ps_maximumImageSize = Cartesian2 (js_mul (arith h) size (Fin 2))
                                             (js_mul (arith h) size (Fin 2)),
            ps_show = True\<rparr>
         else Inl TypeError)"

definition init :: "host \<Rightarrow> bool \<Rightarrow> heatmap \<Rightarrow> error + heatmap" where
  "init h reset s0 =
     (case (if reset then resetCamera h (Fin 1) s0 else Inr s0) of
        Inl e \<Rightarrow> Inl e
      | Inr s \<Rightarrow>
          (case new_emitter h s of
             Inl e \<Rightarrow> Inl e
           | Inr e \<Rightarrow>
               (let scn = the_scene s
                in Inr (s\<lparr>particleSystem := Some e,
                          the_scene := scn\<lparr>primitives := primitives scn @ [ident e],
                                            created := Suc (created scn)\<rparr>\<rparr>))))"

text \<open>
  The updater \<^verbatim>\<open>particleCallback\<close>, in the steps of the source. First the longitude
  offset from the western edge, with its correction across the antimeridian.
\<close>

definition lonGap :: "arithmetic \<Rightarrow> geo_rectangle \<Rightarrow> jsnum \<Rightarrow> jsnum" where
  "lonGap ar r longitude =
     (let gap = js_sub ar longitude (west r)
      in if js_lt longitude (Fin 0) \<and> js_gt (west r) (Fin 0)
         then js_add ar gap (js_mul ar (Math_PI ar) (Fin 2))
         else gap)"

text \<open>The grid column and row; \<open>w\<close> is \<^verbatim>\<open>data[0].length\<close> and \<open>hgt\<close> is \<^verbatim>\<open>data.length\<close>.\<close>

definition posX :: "arithmetic \<Rightarrow> geo_rectangle \<Rightarrow> nat \<Rightarrow> jsnum \<Rightarrow> int" where
  "posX ar r w longitude =
     toInt32 (js_mul ar (js_abs (js_div ar (lonGap ar r longitude) (lonWidth r))) (Fin (real w)))"

definition posY :: "arithmetic \<Rightarrow> geo_rectangle \<Rightarrow> nat \<Rightarrow> jsnum \<Rightarrow> int" where
  "posY ar r hgt latitude =
     toInt32 (js_mul ar (js_abs (js_div ar (js_sub ar (north r) latitude) (latWidth r)))
                (Fin (real hgt)))"

text \<open>\<^verbatim>\<open>data[posY]?.[posX]\<close>: \<^verbatim>\<open>undefined\<close> when the row or the cell does not exist.\<close>

definition cell :: "jsnum list list \<Rightarrow> int \<Rightarrow> int \<Rightarrow> jsnum option" where
  "cell grid py px =
     (case js_index grid py of None \<Rightarrow> None | Some row \<Rightarrow> js_index row px)"

text \<open>
  The sampled \<^verbatim>\<open>value\<close>. Reading \<^verbatim>\<open>data[0].length\<close> of a grid with no rows is a
  TypeError.
\<close>

definition sample :: "host \<Rightarrow> heatmap \<Rightarrow> particle \<Rightarrow> error + jsnum option" where
  "sample h s p =
     (let (longitude, latitude) = cartesianToCartographic h (position p)
      in case data s of
           [] \<Rightarrow> Inl TypeError
         | row0 # _ \<Rightarrow>
             Inr (cell (data s)
                       (posY (arith h) (rectangle s) (length (data s)) latitude)
                       (posX (arith h) (rectangle s) (length row0) longitude)))"

text \<open>The branch for missing data: both alphas to 0, the image cleared.\<close>

definition hide :: "particle \<Rightarrow> particle" where
  "hide p = p\<lparr>p_startColor := (p_startColor p)\<lparr>alpha := Fin 0\<rparr>,
              p_endColor := (p_endColor p)\<lparr>alpha := Fin 0\<rparr>,
              image := None\<rparr>"

text \<open>
  The branch for a number \<open>v\<close>. \<^verbatim>\<open>renderOptions.scale\<close> is a number, so
  \<^verbatim>\<open>scale ?? 1\<close> is \<^verbatim>\<open>scale\<close>. The end colour is what the engine returns for the
  colour string; it is stored and no method is called on it.
\<close>

definition perturb :: "host \<Rightarrow> render_options \<Rightarrow> jsnum \<Rightarrow> particle \<Rightarrow> particle" where
  "perturb h ro v p =
     (let particleGravityScratch = normalize h (position p);
          particleGravityScratch =
            multiplyByScalar h particleGravityScratch
              (js_mul (arith h) (js_mul (arith h) v (Fin 10)) (scale ro))
      in p\<lparr>velocity := add h (velocity p) particleGravityScratch,
           p_endColor := (if js_gt v (Fin 0) then fromCssColorString h (upColor ro)
                          else fromCssColorString h (downColor ro))\<rparr>)"

definition particleCallback :: "host \<Rightarrow> heatmap \<Rightarrow> particle \<Rightarrow> jsnum \<Rightarrow> error + particle" where
  "particleCallback h s p dt =
     (case particleSystem s of
        None \<Rightarrow> Inr p
      | Some _ \<Rightarrow>
          (case sample h s p of
             Inl e \<Rightarrow> Inl e
           | Inr v \<Rightarrow>
               if isNaN v then Inr (hide p)
               else Inr (perturb h (renderOptions s) (toNumber v) p)))"

text \<open>
  \<^verbatim>\<open>update\<close>. The six values are read from \<open>renderOptions\<close> before the argument is
  merged into it, and they are numbers and strings, so each test against
  \<^verbatim>\<open>undefined\<close> succeeds. The start colour is parsed as in \<^verbatim>\<open>init\<close>, with the same
  TypeError.
\<close>

definition update :: "host \<Rightarrow> partial_options \<Rightarrow> heatmap \<Rightarrow> error + heatmap" where
  "update h options s =
     (case particleSystem s of
        None \<Rightarrow> Inr s
      | Some e \<Rightarrow>
          (let ro = renderOptions s;
               s = s\<lparr>renderOptions := spread ro options\<rparr>;
               e = e\<lparr>ps_emissionRate := emissionRate ro\<rparr>
           in if isCssColor h (startColor ro)
              then
                (let e = e\<lparr>ps_startColor := withAlpha (fromCssColorString h (startColor ro)) (Fin 0)\<rparr>;
                     e = e\<lparr>ps_maximumSpeed := maximumSpeed ro\<rparr>;
                     e = e\<lparr>ps_endScale := endScale ro\<rparr>;
                     e = e\<lparr>ps_lifetime := lifetime ro\<rparr>;
                     e = e\<lparr>ps_modelMatrix := eastNorthUpToFixedFrame h
                            (fromRadians h (fst (center (arith h) s)) (snd (center (arith h) s))
                               (Some (height ro)))\<rparr>
                 in Inr (s\<lparr>particleSystem := Some e\<rparr>))
              else Inl TypeError))"

definition switchShow :: "bool \<Rightarrow> heatmap \<Rightarrow> error + heatmap" where
  "switchShow sh s =
     (case particleSystem s of
        Some e \<Rightarrow> Inr (s\<lparr>particleSystem := Some (e\<lparr>ps_show := sh\<rparr>)\<rparr>)
      | None \<Rightarrow> Inl NotInitialized)"

text \<open>
  Modelled from the spec: \<^verbatim>\<open>scene.primitives.remove\<close>, a function of the engine, whose
  collection supports adding and removing an emitter. It takes the emitter out of the
  collection; given \<^verbatim>\<open>null\<close>, or an emitter that is not in the collection, it leaves
  the collection as it is.
\<close>

definition remove :: "emitter option \<Rightarrow> scene \<Rightarrow> scene" where
  "remove eo scn =
     (case eo of
        None \<Rightarrow> scn
      | Some e \<Rightarrow> scn\<lparr>primitives := filter (\<lambda>i. i \<noteq> ident e) (primitives scn)\<rparr>)"

definition clear :: "heatmap \<Rightarrow> error + heatmap" where
  "clear s = Inr (s\<lparr>the_scene := remove (particleSystem s) (the_scene s),
                   particleSystem := None\<rparr>)"

text \<open>Running one operation after another; an error ends the run.\<close>

definition and_then :: "error + 'a \<Rightarrow> ('a \<Rightarrow> error + 'b) \<Rightarrow> error + 'b" where
  "and_then r f = (case r of Inl e \<Rightarrow> Inl e | Inr a \<Rightarrow> f a)"

section \<open>A small host and instance for evaluation\<close>

text \<open>
  A stand-in for the engine, used only to evaluate the code on concrete inputs: a
  flat chart on which a Cartesian point is (longitude, latitude, height). It knows the
  three default colours. \<open>chart\<close> computes without rounding, \<open>chart64\<close> in doubles.
\<close>

fun chart_scale :: "cartesian3 \<Rightarrow> jsnum \<Rightarrow> cartesian3" where
  "chart_scale (Cartesian3 a b c) k =
     Cartesian3 (js_mul exact a k) (js_mul exact b k) (js_mul exact c k)"

fun chart_add :: "cartesian3 \<Rightarrow> cartesian3 \<Rightarrow> cartesian3" where
  "chart_add (Cartesian3 a b c) (Cartesian3 a' b' c') =
     Cartesian3 (js_add exact a a') (js_add exact b b') (js_add exact c c')"

fun chart_distance :: "cartesian3 \<Rightarrow> cartesian3 \<Rightarrow> jsnum" where
  "chart_distance (Cartesian3 a b c) (Cartesian3 a' b' c') =
     js_add exact (js_abs (js_sub exact a a')) (js_abs (js_sub exact b b'))"

fun chart_lonlat :: "cartesian3 \<Rightarrow> jsnum \<times> jsnum" where
  "chart_lonlat (Cartesian3 a b c) = (a, b)"

fun chart_matrix :: "cartesian3 \<Rightarrow> matrix4" where
  "chart_matrix (Cartesian3 a b c) = Matrix4 [a, b, c]"

definition chart_color :: "string \<Rightarrow> color" where
  "chart_color str =
     (if str = ''rgba(0, 247, 255, 1)'' then \<lparr>red = Fin 0, green = Fin (247 / 255), blue = Fin 1, alpha = Fin 1\<rparr>
      else if str = ''rgba(255, 255, 0, 1)'' then \<lparr>red = Fin 1, green = Fin 1, blue = Fin 0, alpha = Fin 1\<rparr>
      else if str = ''rgba(0, 0, 255, 1)'' then \<lparr>red = Fin 0, green = Fin 0, blue = Fin 1, alpha = Fin 1\<rparr>
      else \<lparr>red = Fin 0, green = Fin 0, blue = Fin 0, alpha = Fin 1\<rparr>)"

definition chart_knows :: "string \<Rightarrow> bool" where
  "chart_knows str =
     (str = ''rgba(0, 247, 255, 1)'' \<or> str = ''rgba(255, 255, 0, 1)'' \<or> str = ''rgba(0, 0, 255, 1)'')"

definition chart :: host where
  "chart =
     \<lparr>arith = exact,
      fromRadians = (\<lambda>lon lat hgt. Cartesian3 lon lat (case hgt of None \<Rightarrow> Fin 0 | Some v \<Rightarrow> v)),
      distance = chart_distance,
      eastNorthUpToFixedFrame = chart_matrix,
      isCssColor = chart_knows,
      fromCssColorString = chart_color,
      cartesianToCartographic = chart_lonlat,
      normalize = (\<lambda>v. v),
      multiplyByScalar = chart_scale,
      add = chart_add,
      toDegrees = (\<lambda>a. js_mul exact a (Fin (180 / pi))),
      toRadians = (\<lambda>a. js_mul exact a (Fin (pi / 180)))\<rparr>"


text \<open>
  An instance with the default options over the rectangle from 1 to 2 radians of
  longitude and 0 to 1 radian of latitude, with a 2 x 2 grid, in an empty scene.
\<close>

definition unit_rectangle :: geo_rectangle where
  "unit_rectangle =
     \<lparr>west = Fin 1, south = Fin 0, east = Fin 2, north = Fin 1,
      lonWidth = Fin 1, latWidth = Fin 1\<rparr>"

definition empty_scene :: scene where
  "empty_scene = \<lparr>primitives = [], created = 0, camera = None\<rparr>"

definition fresh :: heatmap where
  "fresh = constructor empty_scene unit_rectangle [[Fin 1, Fin (- 1)], [NaN, Fin 0]] None"

definition mote :: particle where
  "mote = \<lparr>position = Cartesian3 (Fin 1.25) (Fin 0.75) (Fin 1000),
           velocity = Cartesian3 (Fin 0) (Fin 0) (Fin 1),
           p_startColor = \<lparr>red = Fin 0, green = Fin 1, blue = Fin 1, alpha = Fin 0\<rparr>,
           p_endColor = \<lparr>red = Fin 1, green = Fin 1, blue = Fin 1, alpha = Fin 1\<rparr>,
           image = Some ''/smoke.png''\<rparr>"

text \<open>The empty argument \<^verbatim>\<open>{}\<close> of \<^verbatim>\<open>update\<close>.\<close>

definition no_options :: partial_options where
  "no_options =
     \<lparr>emissionRate_opt = None, startColor_opt = None, upColor_opt = None, downColor_opt = None,
      lifetime_opt = None, scale_opt = None, maximumSpeed_opt = None, endScale_opt = None,
      height_opt = None\<rparr>"

text \<open>The instance after \<^verbatim>\<open>init()\<close>.\<close>

definition live :: heatmap where
  "live = projr (init chart False fresh)"





section \<open>Facts used by the claims\<close>

lemma exact_fields: "rounding exact = Fin" "Math_PI exact = Fin pi"
  by (simp_all add: exact_def)

lemma double_fields:
  "rounding double = binary64" "Math_PI double = Fin (884279719003555 / 281474976710656)"
  by (simp_all add: double_def)

lemma chart_fields:
  "arith chart = exact" "isCssColor chart = chart_knows" "fromCssColorString chart = chart_color"
  "cartesianToCartographic chart = chart_lonlat" "normalize chart = (\<lambda>v. v)"
  "multiplyByScalar chart = chart_scale" "add chart = chart_add"
  "eastNorthUpToFixedFrame chart = chart_matrix"
  by (simp_all add: chart_def)


lemma pi_not_less: "\<not> pi * 2 < 3"
  using pi_ge_two by linarith

lemma center_fresh: "center exact fresh = (Fin (3 / 2), Fin (1 / 2))"
  by (simp add: center_def fresh_def constructor_def unit_rectangle_def js_gt_def exact_fields
      pi_not_less Let_def)

lemma fresh_parses: "isCssColor chart (startColor (renderOptions fresh))"
  by (simp add: chart_fields chart_knows_def fresh_def constructor_def defaultOptions_def)

lemma init_fresh:
  "init chart False fresh =
     Inr (fresh\<lparr>particleSystem := Some (projr (new_emitter chart fresh)),
               the_scene := (the_scene fresh)\<lparr>primitives := [0], created := Suc 0\<rparr>\<rparr>)"
  using fresh_parses
  by (simp add: init_def new_emitter_def Let_def fresh_def constructor_def empty_scene_def)

lemma live_fields:
  "particleSystem live \<noteq> None" "data live = [[Fin 1, Fin (- 1)], [NaN, Fin 0]]"
  "rectangle live = unit_rectangle" "renderOptions live = defaultOptions"
  by (simp_all add: live_def init_fresh) (simp_all add: fresh_def constructor_def)

lemma center_live: "center exact live = (Fin (3 / 2), Fin (1 / 2))"
  using center_fresh by (simp add: center_def live_def init_fresh)

text \<open>A cell outside the grid reads as \<^verbatim>\<open>undefined\<close>; a cell inside reads as its value.\<close>

lemma cell_missing:
  "py < 0 \<or> int (length grid) \<le> py \<or> px < 0 \<or> int (length (grid ! nat py)) \<le> px \<Longrightarrow>
   cell grid py px = None"
  by (auto simp: cell_def js_index_def)

lemma cell_present:
  "0 \<le> py \<Longrightarrow> py < int (length grid) \<Longrightarrow> 0 \<le> px \<Longrightarrow> px < int (length (grid ! nat py)) \<Longrightarrow>
   cell grid py px = Some (grid ! nat py ! nat px)"
  by (simp add: cell_def js_index_def)

lemma sample_nonempty:
  "data s = row0 # rows \<Longrightarrow> cartesianToCartographic h (position p) = (longitude, latitude) \<Longrightarrow>
   sample h s p = Inr (cell (data s) (posY (arith h) (rectangle s) (length (data s)) latitude)
                                     (posX (arith h) (rectangle s) (length row0) longitude))"
  by (simp add: sample_def)

text \<open>With an emitter and a number in the sampled cell, the updater takes the last branch.\<close>

lemma callback_sampled:
  assumes "particleSystem s \<noteq> None"
    and "data s = row0 # rows"
    and "cartesianToCartographic h (position p) = (longitude, latitude)"
    and "px = posX (arith h) (rectangle s) (length row0) longitude"
    and "py = posY (arith h) (rectangle s) (length (data s)) latitude"
    and "0 \<le> py" and "py < int (length (data s))"
    and "0 \<le> px" and "px < int (length (data s ! nat py))"
    and "v = data s ! nat py ! nat px"
    and "v \<noteq> NaN"
  shows "particleCallback h s p dt = Inr (perturb h (renderOptions s) v p)"
proof -
  have "sample h s p = Inr (cell (data s) py px)"
    using assms(2-5) by (simp add: sample_nonempty)
  also have "cell (data s) py px = Some v"
    using assms(6-10) by (simp add: cell_present)
  finally have smp: "sample h s p = Inr (Some v)" .
  have "\<not> isNaN (Some v)"
    using assms(11) by (simp add: isNaN_def)
  with smp assms(1) show ?thesis
    by (auto simp: particleCallback_def)
qed

text \<open>The grid positions on the unit rectangle that the evaluations below use.\<close>

lemma posX_unit: "posX exact unit_rectangle (Suc (Suc 0)) (Fin (5 / 4)) = 0"
  by (simp add: posX_def lonGap_def unit_rectangle_def js_sub_def js_gt_def trunc_def wrap32_def
      exact_fields)

lemma posX_unit_east: "posX exact unit_rectangle (Suc (Suc 0)) (Fin (7 / 4)) = 1"
  by (simp add: posX_def lonGap_def unit_rectangle_def js_sub_def js_gt_def trunc_def wrap32_def
      exact_fields)

lemma posY_unit_north: "posY exact unit_rectangle (Suc (Suc 0)) (Fin (3 / 4)) = 0"
  by (simp add: posY_def unit_rectangle_def js_sub_def trunc_def wrap32_def exact_fields)

lemma posY_unit_south: "posY exact unit_rectangle (Suc (Suc 0)) (Fin (1 / 4)) = 1"
  by (simp add: posY_def unit_rectangle_def js_sub_def trunc_def wrap32_def exact_fields)




text \<open>Evaluating \<open>exponent_from\<close> on a numeral, one step at a time.\<close>

lemma exponent_from_numeral:
  "exponent_from (numeral k) x e =
     (if x < 1 then exponent_from (pred_numeral k) (2 * x) (e - 1)
      else if 2 \<le> x then exponent_from (pred_numeral k) (x / 2) (e + 1)
      else e)"
  by (simp add: numeral_eq_Suc)

section \<open>Lifecycle: init\<close>

text \<open>
  C1, as the specification states it: \<^verbatim>\<open>init()\<close> on an instance that already has an
  emitter throws an "already initialized" error and creates no second emitter. The
  code does otherwise. On the fresh instance, \<^verbatim>\<open>init()\<close> followed by \<^verbatim>\<open>init()\<close>
  returns normally, the scene then holds two emitters, and the instance refers to the
  second one.
\<close>

theorem init_twice_counterexample:
  "\<not> isl (and_then (init chart False fresh) (init chart False)) \<and>
   primitives (the_scene (projr (and_then (init chart False fresh) (init chart False)))) = [0, 1] \<and>
   map_option ident (particleSystem (projr (and_then (init chart False fresh) (init chart False)))) = Some 1"
  using fresh_parses
  by (simp add: and_then_def init_fresh)
     (simp add: init_def new_emitter_def Let_def fresh_def constructor_def empty_scene_def)

text \<open>
  C1, amended: \<^verbatim>\<open>init\<close> does not look at the emitter the instance has; it does on an
  initialised instance what it does on a new one. When the engine parses the stored
  start colour it returns normally: it creates a new emitter, appends it to the
  primitives of the scene, where whatever the collection held stays, and makes the
  instance refer to it. When the engine does not parse the start colour it throws a
  TypeError. Whether it throws does not depend on the emitter reference.
\<close>

theorem init_ignores_emitter:
  "(if isCssColor h (startColor (renderOptions s))
    then (\<exists>s' e. init h reset s = Inr s' \<and> particleSystem s' = Some e \<and>
            ident e = created (the_scene s) \<and>
            primitives (the_scene s') = primitives (the_scene s) @ [ident e] \<and>
            created (the_scene s') = Suc (created (the_scene s)))
    else init h reset s = Inl TypeError) \<and>
   isl (init h reset (s\<lparr>particleSystem := ps\<rparr>)) = isl (init h reset s)"
  by (simp add: init_def resetCamera_def new_emitter_def Let_def)

text \<open>
  C1 at a concrete input: the initialised instance has emitter 0 in the scene; a
  second \<^verbatim>\<open>init()\<close> returns normally and the scene holds emitters 0 and 1.
\<close>

theorem init_ignores_emitter_witness:
  "particleSystem live \<noteq> None \<and> primitives (the_scene live) = [0] \<and>
   \<not> isl (init chart False live) \<and>
   primitives (the_scene (projr (init chart False live))) = [0, 1]"
proof -
  have p: "isCssColor chart (startColor (renderOptions live))"
    using fresh_parses by (simp add: live_fields fresh_def constructor_def)
  have q: "primitives (the_scene live) = [0]"
    by (simp add: live_def init_fresh)
  from init_ignores_emitter [of chart live False None] p
  have "\<exists>s' e. init chart False live = Inr s' \<and> particleSystem s' = Some e \<and>
      ident e = created (the_scene live) \<and>
      primitives (the_scene s') = primitives (the_scene live) @ [ident e] \<and>
      created (the_scene s') = Suc (created (the_scene live))"
    by simp
  then obtain s' e where "init chart False live = Inr s'" "particleSystem s' = Some e"
    "primitives (the_scene s') = primitives (the_scene live) @ [ident e]"
    "ident e = created (the_scene live)"
    by blast
  moreover have "created (the_scene live) = 1"
    by (simp add: live_def init_fresh)
  ultimately show ?thesis
    using q by (simp add: live_fields)
qed

section \<open>Lifecycle: update\<close>

text \<open>
  C2 says that \<^verbatim>\<open>update({ height: h })\<close> places the emitter with the new height. The
  code reads the height before it merges the argument: on the fresh instance (stored
  height 1000), after \<^verbatim>\<open>init()\<close> and \<^verbatim>\<open>update({ height: 5000 })\<close> the stored height is
  5000 but the model matrix of the emitter is the one computed from 1000, for every
  host on which the run does not end in the TypeError of an unparsed start colour. On
  the chart host the matrix is that of (3/2, 1/2, 1000), which differs from that of
  (3/2, 1/2, 5000).
\<close>

theorem update_height_uses_old_height:
  "(if isCssColor h (startColor defaultOptions)
    then map_option ps_modelMatrix
           (particleSystem (projr (and_then (init h False fresh)
              (update h (no_options\<lparr>height_opt := Some (Fin 5000)\<rparr>))))) =
         Some (eastNorthUpToFixedFrame h
                (fromRadians h (fst (center (arith h) fresh)) (snd (center (arith h) fresh))
                   (Some (Fin 1000)))) \<and>
         height (renderOptions (projr (and_then (init h False fresh)
              (update h (no_options\<lparr>height_opt := Some (Fin 5000)\<rparr>))))) = Fin 5000
    else and_then (init h False fresh)
              (update h (no_options\<lparr>height_opt := Some (Fin 5000)\<rparr>)) = Inl TypeError) \<and>
   map_option ps_modelMatrix
     (particleSystem (projr (and_then (init chart False fresh)
        (update chart (no_options\<lparr>height_opt := Some (Fin 5000)\<rparr>))))) =
   Some (eastNorthUpToFixedFrame chart (fromRadians chart (Fin (3 / 2)) (Fin (1 / 2)) (Some (Fin 1000)))) \<and>
   height (renderOptions (projr (and_then (init chart False fresh)
        (update chart (no_options\<lparr>height_opt := Some (Fin 5000)\<rparr>))))) = Fin 5000 \<and>
   eastNorthUpToFixedFrame chart (fromRadians chart (Fin (3 / 2)) (Fin (1 / 2)) (Some (Fin 1000))) \<noteq>
   eastNorthUpToFixedFrame chart (fromRadians chart (Fin (3 / 2)) (Fin (1 / 2)) (Some (Fin 5000)))"
proof -
  let ?u = "no_options\<lparr>height_opt := Some (Fin 5000)\<rparr>"
  have c: "center ar (fresh\<lparr>particleSystem := pz, the_scene := sc, renderOptions := ro\<rparr>) =
      center ar fresh" for ar pz sc ro
    by (simp add: center_def)
  have d: "renderOptions fresh = defaultOptions"
    by (simp add: fresh_def constructor_def)
  have e: "height defaultOptions = Fin 1000"
    by (simp add: defaultOptions_def)
  have g: "(if isCssColor k (startColor defaultOptions)
    then map_option ps_modelMatrix
           (particleSystem (projr (and_then (init k False fresh) (update k ?u)))) =
         Some (eastNorthUpToFixedFrame k
                (fromRadians k (fst (center (arith k) fresh)) (snd (center (arith k) fresh))
                   (Some (Fin 1000)))) \<and>
         height (renderOptions (projr (and_then (init k False fresh) (update k ?u)))) = Fin 5000
    else and_then (init k False fresh) (update k ?u) = Inl TypeError)" for k
    by (simp add: and_then_def init_def new_emitter_def update_def Let_def c d e spread_def
        no_options_def)
  have p: "isCssColor chart (startColor defaultOptions)"
    using fresh_parses by (simp add: d)
  have "center (arith chart) fresh = (Fin (3 / 2), Fin (1 / 2))"
    by (simp add: chart_fields center_fresh)
  with g [of chart] p
  have "map_option ps_modelMatrix
      (particleSystem (projr (and_then (init chart False fresh) (update chart ?u)))) =
      Some (eastNorthUpToFixedFrame chart (fromRadians chart (Fin (3 / 2)) (Fin (1 / 2)) (Some (Fin 1000))))"
    and "height (renderOptions (projr (and_then (init chart False fresh) (update chart ?u)))) = Fin 5000"
    by simp_all
  moreover have
    "eastNorthUpToFixedFrame chart (fromRadians chart (Fin (3 / 2)) (Fin (1 / 2)) (Some (Fin 1000))) \<noteq>
     eastNorthUpToFixedFrame chart (fromRadians chart (Fin (3 / 2)) (Fin (1 / 2)) (Some (Fin 5000)))"
    by (simp add: chart_def)
  ultimately show ?thesis
    using g [of h] by simp
qed

section \<open>The updater: missing data\<close>

text \<open>
  C3: the instance has an emitter and the grid has a first row, so that a column
  \<open>px\<close> and a row \<open>py\<close> are resolved for the particle. If that index lies outside
  the grid, or the cell there is NaN, the updater returns normally with the start and
  end alpha at 0 and the image cleared; velocity and position are as they were.
\<close>

theorem missing_data_hides_particle:
  assumes "particleSystem s \<noteq> None"
    and "data s = row0 # rows"
    and "cartesianToCartographic h (position p) = (longitude, latitude)"
    and "px = posX (arith h) (rectangle s) (length row0) longitude"
    and "py = posY (arith h) (rectangle s) (length (data s)) latitude"
    and "py < 0 \<or> int (length (data s)) \<le> py \<or> px < 0 \<or> int (length (data s ! nat py)) \<le> px
         \<or> data s ! nat py ! nat px = NaN"
  shows "particleCallback h s p dt = Inr (hide p) \<and>
         alpha (p_startColor (hide p)) = Fin 0 \<and> alpha (p_endColor (hide p)) = Fin 0 \<and>
         image (hide p) = None \<and> velocity (hide p) = velocity p \<and> position (hide p) = position p"
proof -
  have smp: "sample h s p = Inr (cell (data s) py px)"
    using assms(2-5) by (simp add: sample_nonempty)
  have "isNaN (cell (data s) py px)"
  proof (cases "py < 0 \<or> int (length (data s)) \<le> py \<or> px < 0 \<or> int (length (data s ! nat py)) \<le> px")
    case True
    then show ?thesis by (simp add: cell_missing isNaN_def)
  next
    case False
    then have "cell (data s) py px = Some (data s ! nat py ! nat px)"
      by (simp add: cell_present)
    with False assms(6) show ?thesis by (simp add: isNaN_def)
  qed
  with smp assms(1) have "particleCallback h s p dt = Inr (hide p)"
    by (auto simp: particleCallback_def)
  then show ?thesis by (simp add: hide_def)
qed

text \<open>
  C3 at a concrete input: on the initialised instance, a particle over longitude 5/4
  and latitude 1/4 resolves to row 1, column 0, where the grid holds NaN. It is hidden
  and keeps its velocity.
\<close>

theorem missing_data_hides_particle_witness:
  "particleCallback chart live (mote\<lparr>position := Cartesian3 (Fin (5 / 4)) (Fin (1 / 4)) (Fin 1000)\<rparr>) (Fin 0) =
     Inr (hide (mote\<lparr>position := Cartesian3 (Fin (5 / 4)) (Fin (1 / 4)) (Fin 1000)\<rparr>)) \<and>
   velocity (hide (mote\<lparr>position := Cartesian3 (Fin (5 / 4)) (Fin (1 / 4)) (Fin 1000)\<rparr>)) =
     Cartesian3 (Fin 0) (Fin 0) (Fin 1)"
proof -
  let ?p = "mote\<lparr>position := Cartesian3 (Fin (5 / 4)) (Fin (1 / 4)) (Fin 1000)\<rparr>"
  have a: "particleSystem live \<noteq> None"
    by (rule live_fields)
  have b: "data live = [Fin 1, Fin (- 1)] # [[NaN, Fin 0]]"
    by (rule live_fields)
  have c: "cartesianToCartographic chart (position ?p) = (Fin (5 / 4), Fin (1 / 4))"
    by (simp add: chart_fields)
  have d: "0 = posX (arith chart) (rectangle live) (length [Fin 1, Fin (- 1)]) (Fin (5 / 4))"
    by (simp add: live_fields chart_fields posX_unit)
  have e: "1 = posY (arith chart) (rectangle live) (length (data live)) (Fin (1 / 4))"
    by (simp add: live_fields chart_fields posY_unit_south)
  have f: "(1::int) < 0 \<or> int (length (data live)) \<le> 1 \<or> (0::int) < 0
      \<or> int (length (data live ! nat 1)) \<le> 0 \<or> data live ! nat 1 ! nat 0 = NaN"
    by (simp add: live_fields)
  from missing_data_hides_particle [OF a b c d e f, of "Fin 0"] show ?thesis
    by (simp add: mote_def)
qed

section \<open>The updater: colour and velocity\<close>

text \<open>
  C4: the instance has an emitter and the particle resolves to a cell inside the grid
  that holds a number \<open>v\<close> other than NaN. Then the updater returns normally and the
  end colour is the parsed \<open>upColor\<close> when \<open>v > 0\<close> and the parsed \<open>downColor\<close>
  otherwise; a value of exactly 0 gives \<open>downColor\<close>.
\<close>

theorem end_color_by_sign:
  assumes "particleSystem s \<noteq> None"
    and "data s = row0 # rows"
    and "cartesianToCartographic h (position p) = (longitude, latitude)"
    and "px = posX (arith h) (rectangle s) (length row0) longitude"
    and "py = posY (arith h) (rectangle s) (length (data s)) latitude"
    and "0 \<le> py" and "py < int (length (data s))"
    and "0 \<le> px" and "px < int (length (data s ! nat py))"
    and "v = data s ! nat py ! nat px"
    and "v \<noteq> NaN"
  shows "\<exists>p'. particleCallback h s p dt = Inr p' \<and>
           p_endColor p' = fromCssColorString h
              (if js_gt v (Fin 0) then upColor (renderOptions s) else downColor (renderOptions s)) \<and>
           (\<forall>a. v = Fin a \<longrightarrow> p_endColor p' = fromCssColorString h
              (if 0 < a then upColor (renderOptions s) else downColor (renderOptions s))) \<and>
           (v = Fin 0 \<longrightarrow> p_endColor p' = fromCssColorString h (downColor (renderOptions s)))"
proof -
  have "particleCallback h s p dt = Inr (perturb h (renderOptions s) v p)"
    using assms by (rule callback_sampled)
  then show ?thesis
    by (auto simp: perturb_def Let_def js_gt_def)
qed

text \<open>
  C4 at a concrete input: a particle over longitude 7/4 and latitude 1/4 resolves to
  row 1, column 1, where the grid holds 0; its end colour becomes the default
  \<open>downColor\<close>, blue.
\<close>

theorem end_color_by_sign_witness:
  "p_endColor (projr (particleCallback chart live
      (mote\<lparr>position := Cartesian3 (Fin (7 / 4)) (Fin (1 / 4)) (Fin 1000)\<rparr>) (Fin 0))) =
   \<lparr>red = Fin 0, green = Fin 0, blue = Fin 1, alpha = Fin 1\<rparr>"
proof -
  let ?p = "mote\<lparr>position := Cartesian3 (Fin (7 / 4)) (Fin (1 / 4)) (Fin 1000)\<rparr>"
  have a: "particleSystem live \<noteq> None"
    by (rule live_fields)
  have b: "data live = [Fin 1, Fin (- 1)] # [[NaN, Fin 0]]"
    by (rule live_fields)
  have c: "cartesianToCartographic chart (position ?p) = (Fin (7 / 4), Fin (1 / 4))"
    by (simp add: chart_fields)
  have d: "1 = posX (arith chart) (rectangle live) (length [Fin 1, Fin (- 1)]) (Fin (7 / 4))"
    by (simp add: live_fields chart_fields posX_unit_east)
  have e: "1 = posY (arith chart) (rectangle live) (length (data live)) (Fin (1 / 4))"
    by (simp add: live_fields chart_fields posY_unit_south)
  have f: "(0::int) \<le> 1" "(1::int) < int (length (data live))"
    "(1::int) < int (length (data live ! nat 1))"
    by (simp_all add: live_fields)
  have g: "Fin 0 = data live ! nat 1 ! nat 1"
    by (simp add: live_fields)
  have n: "Fin 0 \<noteq> NaN"
    by simp
  from end_color_by_sign [OF a b c d e f(1) f(2) f(1) f(3) g n, of "Fin 0"]
  obtain p' where r: "particleCallback chart live ?p (Fin 0) = Inr p'"
    and col: "p_endColor p' = fromCssColorString chart (downColor (renderOptions live))"
    by auto
  have "fromCssColorString chart (downColor (renderOptions live)) =
      \<lparr>red = Fin 0, green = Fin 0, blue = Fin 1, alpha = Fin 1\<rparr>"
    by (simp add: live_fields defaultOptions_def chart_fields chart_color_def)
  with r col show ?thesis by simp
qed

text \<open>
  C7: under the same conditions the new velocity is the old velocity plus the
  normalised position scaled by \<open>v * 10 * scale\<close>; the position is not written.
\<close>

theorem velocity_accumulates:
  assumes "particleSystem s \<noteq> None"
    and "data s = row0 # rows"
    and "cartesianToCartographic h (position p) = (longitude, latitude)"
    and "px = posX (arith h) (rectangle s) (length row0) longitude"
    and "py = posY (arith h) (rectangle s) (length (data s)) latitude"
    and "0 \<le> py" and "py < int (length (data s))"
    and "0 \<le> px" and "px < int (length (data s ! nat py))"
    and "v = data s ! nat py ! nat px"
    and "v \<noteq> NaN"
  shows "\<exists>p'. particleCallback h s p dt = Inr p' \<and>
           velocity p' = add h (velocity p)
              (multiplyByScalar h (normalize h (position p))
                 (js_mul (arith h) (js_mul (arith h) v (Fin 10)) (scale (renderOptions s)))) \<and>
           position p' = position p"
proof -
  have "particleCallback h s p dt = Inr (perturb h (renderOptions s) v p)"
    using assms by (rule callback_sampled)
  then show ?thesis
    by (simp add: perturb_def Let_def)
qed

text \<open>
  C7 at a concrete input: the particle \<open>mote\<close> resolves to row 0, column 0, where the
  grid holds 1; with the default scale 10 its velocity (0, 0, 1) grows by 100 times
  its position on the chart host.
\<close>

theorem velocity_accumulates_witness:
  "velocity (projr (particleCallback chart live mote (Fin 0))) =
   Cartesian3 (Fin 125) (Fin 75) (Fin 100001)"
proof -
  have a: "particleSystem live \<noteq> None"
    by (rule live_fields)
  have b: "data live = [Fin 1, Fin (- 1)] # [[NaN, Fin 0]]"
    by (rule live_fields)
  have c: "cartesianToCartographic chart (position mote) = (Fin (5 / 4), Fin (3 / 4))"
    by (simp add: chart_fields mote_def)
  have d: "0 = posX (arith chart) (rectangle live) (length [Fin 1, Fin (- 1)]) (Fin (5 / 4))"
    by (simp add: live_fields chart_fields posX_unit)
  have e: "0 = posY (arith chart) (rectangle live) (length (data live)) (Fin (3 / 4))"
    by (simp add: live_fields chart_fields posY_unit_north)
  have f: "(0::int) \<le> 0" "(0::int) < int (length (data live))"
    "(0::int) < int (length (data live ! nat 0))"
    by (simp_all add: live_fields)
  have g: "Fin 1 = data live ! nat 0 ! nat 0"
    by (simp add: live_fields)
  have n: "Fin 1 \<noteq> NaN"
    by simp
  from velocity_accumulates [OF a b c d e f(1) f(2) f(1) f(3) g n, of "Fin 0"]
  obtain p' where r: "particleCallback chart live mote (Fin 0) = Inr p'"
    and vel: "velocity p' = add chart (velocity mote)
        (multiplyByScalar chart (normalize chart (position mote))
           (js_mul (arith chart) (js_mul (arith chart) (Fin 1) (Fin 10)) (scale (renderOptions live))))"
    by auto
  have "add chart (velocity mote)
        (multiplyByScalar chart (normalize chart (position mote))
           (js_mul (arith chart) (js_mul (arith chart) (Fin 1) (Fin 10)) (scale (renderOptions live)))) =
      Cartesian3 (Fin 125) (Fin 75) (Fin 100001)"
    by (simp add: live_fields defaultOptions_def chart_fields exact_fields mote_def)
  with r vel show ?thesis by simp
qed

section \<open>The updater: grid position\<close>

lemma full_turn: "js_mul exact (Math_PI exact) (Fin 2) = Fin (2 * pi)"
  by (simp add: exact_fields)

lemma lonGap_cases:
  "lonGap ar r lon =
     (if js_lt lon (Fin 0) \<and> js_lt (Fin 0) (west r)
      then js_add ar (js_sub ar lon (west r)) (js_mul ar (Math_PI ar) (Fin 2))
      else js_sub ar lon (west r))"
  by (simp add: lonGap_def js_gt_def Let_def)

text \<open>The doubles of the 170 degree case: \<^verbatim>\<open>170 * (Math.PI / 180)\<close> and the offset.\<close>

lemma lonGap_double_170:
  "west r = Fin (417576533973901 / 140737488355328) \<Longrightarrow>
   lonGap double r (Fin (- (417576533973901 / 140737488355328))) =
     Fin (49126651055753 / 140737488355328)"
  by (simp add: lonGap_cases js_sub_def double_fields binary64_def exponent_from_numeral pow2_def
      round_even_def Let_def)

text \<open>
  C5: the longitude offset is \<open>longitude - west\<close>, with a full turn added exactly when
  the longitude is below 0 and the western edge is above 0, in every arithmetic.
  Without rounding this is the real number \<open>l - w + 2 * pi\<close> or \<open>l - w\<close>, and for a
  western edge at 170 degrees and a width of at least 20 degrees (so that the
  rectangle reaches -170 degrees), a particle at -170 degrees has the offset
  20 degrees, between 0 and the width. In doubles, with 170 degrees the number
  \<^verbatim>\<open>170 * (Math.PI / 180)\<close>, the offset is 0.3490658503988655, again between 0 and any
  width that reaches -170 degrees.
\<close>

theorem lonGap_wraps_once:
  "lonGap ar r longitude =
     (if js_lt longitude (Fin 0) \<and> js_lt (Fin 0) (west r)
      then js_add ar (js_sub ar longitude (west r)) (js_mul ar (Math_PI ar) (Fin 2))
      else js_sub ar longitude (west r)) \<and>
   lonGap exact r longitude =
     (if js_lt longitude (Fin 0) \<and> js_lt (Fin 0) (west r)
      then js_add exact (js_sub exact longitude (west r)) (Fin (2 * pi))
      else js_sub exact longitude (west r)) \<and>
   (west r = Fin w \<longrightarrow>
      lonGap exact r (Fin l) = Fin (if l < 0 \<and> 0 < w then l - w + 2 * pi else l - w)) \<and>
   (west r = Fin (170 * pi / 180) \<and> lonWidth r = Fin d \<and> 20 * pi / 180 \<le> d \<longrightarrow>
      (\<exists>g. lonGap exact r (Fin (- 170 * pi / 180)) = Fin g \<and> 0 \<le> g \<and> g \<le> d \<and> g = 20 * pi / 180)) \<and>
   (west r = Fin (417576533973901 / 140737488355328) \<and> lonWidth r = Fin d \<and>
    49126651055753 / 140737488355328 \<le> d \<longrightarrow>
      (\<exists>g. lonGap double r (Fin (- (417576533973901 / 140737488355328))) = Fin g \<and>
           0 \<le> g \<and> g \<le> d \<and> g = 49126651055753 / 140737488355328))"
proof -
  have a: "lonGap exact r lon =
     (if js_lt lon (Fin 0) \<and> js_lt (Fin 0) (west r)
      then js_add exact (js_sub exact lon (west r)) (Fin (2 * pi))
      else js_sub exact lon (west r))" for lon
    by (simp add: lonGap_cases full_turn)
  have b: "west r = Fin w \<longrightarrow>
      lonGap exact r (Fin l) = Fin (if l < 0 \<and> 0 < w then l - w + 2 * pi else l - w)"
    by (auto simp: a js_sub_def exact_fields)
  have c: "west r = Fin (170 * pi / 180) \<and> lonWidth r = Fin d \<and> 20 * pi / 180 \<le> d \<longrightarrow>
      (\<exists>g. lonGap exact r (Fin (- 170 * pi / 180)) = Fin g \<and> 0 \<le> g \<and> g \<le> d \<and> g = 20 * pi / 180)"
  proof
    assume h: "west r = Fin (170 * pi / 180) \<and> lonWidth r = Fin d \<and> 20 * pi / 180 \<le> d"
    have "lonGap exact r (Fin (- 170 * pi / 180)) = Fin (20 * pi / 180)"
      using h pi_gt_zero by (simp add: a js_sub_def exact_fields)
    moreover have "(0::real) \<le> 20 * pi / 180"
      using pi_gt_zero by simp
    ultimately show "\<exists>g. lonGap exact r (Fin (- 170 * pi / 180)) = Fin g \<and> 0 \<le> g \<and> g \<le> d \<and> g = 20 * pi / 180"
      using h by blast
  qed
  have e: "west r = Fin (417576533973901 / 140737488355328) \<and> lonWidth r = Fin d \<and>
    49126651055753 / 140737488355328 \<le> d \<longrightarrow>
      (\<exists>g. lonGap double r (Fin (- (417576533973901 / 140737488355328))) = Fin g \<and>
           0 \<le> g \<and> g \<le> d \<and> g = 49126651055753 / 140737488355328)"
  proof
    assume h: "west r = Fin (417576533973901 / 140737488355328) \<and> lonWidth r = Fin d \<and>
      49126651055753 / 140737488355328 \<le> d"
    then have "lonGap double r (Fin (- (417576533973901 / 140737488355328))) =
        Fin (49126651055753 / 140737488355328)"
      by (simp only: lonGap_double_170)
    moreover have "(0::real) \<le> 49126651055753 / 140737488355328"
      by simp
    ultimately show "\<exists>g. lonGap double r (Fin (- (417576533973901 / 140737488355328))) = Fin g \<and>
           0 \<le> g \<and> g \<le> d \<and> g = 49126651055753 / 140737488355328"
      using h by blast
  qed
  from lonGap_cases [of ar r longitude] a [of longitude] b c e show ?thesis by blast
qed

text \<open>
  C5 at a concrete input: a rectangle from 170 degrees east across the antimeridian
  to -160 degrees, 30 degrees wide, and a particle at -170 degrees.
\<close>

theorem lonGap_wraps_once_witness:
  "lonGap exact (unit_rectangle\<lparr>west := Fin (170 * pi / 180), east := Fin (- 160 * pi / 180),
                           lonWidth := Fin (30 * pi / 180)\<rparr>) (Fin (- 170 * pi / 180)) =
     Fin (20 * pi / 180) \<and> (0::real) \<le> 20 * pi / 180 \<and> 20 * pi / 180 \<le> 30 * pi / 180"
proof -
  let ?r = "unit_rectangle\<lparr>west := Fin (170 * pi / 180), east := Fin (- 160 * pi / 180),
                           lonWidth := Fin (30 * pi / 180)\<rparr>"
  have h: "west ?r = Fin (170 * pi / 180) \<and> lonWidth ?r = Fin (30 * pi / 180) \<and>
      20 * pi / 180 \<le> 30 * pi / 180"
    using pi_gt_zero by simp
  from lonGap_wraps_once [of exact ?r "Fin (- 170 * pi / 180)" "170 * pi / 180" "- 170 * pi / 180" "30 * pi / 180"] h
  obtain g where "lonGap exact ?r (Fin (- 170 * pi / 180)) = Fin g" "0 \<le> g" "g \<le> 30 * pi / 180" "g = 20 * pi / 180"
    by blast
  then show ?thesis by simp
qed














section \<open>Lifecycle: clear and switchShow\<close>

text \<open>
  C8: \<^verbatim>\<open>clear()\<close> returns normally in every state, and a second \<^verbatim>\<open>clear()\<close> returns
  normally and changes nothing. After it the instance has no emitter, as a newly
  constructed instance has none.
\<close>

theorem clear_idempotent:
  "\<exists>s'. clear s = Inr s' \<and> clear s' = Inr s' \<and> and_then (clear s) clear = clear s \<and>
        particleSystem s' = None \<and>
        particleSystem s' = particleSystem (constructor scn rect grid ro)"
  by (simp add: clear_def remove_def and_then_def constructor_def)

text \<open>
  C9: \<^verbatim>\<open>switchShow(b)\<close> throws the error \<^verbatim>\<open>have not initializated\<close> on a newly
  constructed instance, after \<^verbatim>\<open>clear()\<close>, and whenever there is no emitter; with an
  emitter it returns normally and only sets the emitter's \<^verbatim>\<open>show\<close> to \<open>b\<close>.
\<close>

theorem switchShow_needs_emitter:
  "switchShow b (constructor scn rect grid ro) = Inl NotInitialized \<and>
   and_then (clear s) (switchShow b) = Inl NotInitialized \<and>
   (particleSystem s = None \<longrightarrow> switchShow b s = Inl NotInitialized) \<and>
   (particleSystem s = Some e \<longrightarrow>
      switchShow b s = Inr (s\<lparr>particleSystem := Some (e\<lparr>ps_show := b\<rparr>)\<rparr>))"
  by (simp add: switchShow_def constructor_def clear_def and_then_def)

text \<open>
  C9 at concrete inputs: \<^verbatim>\<open>switchShow(true)\<close> on the fresh instance throws; the
  initialised instance has a visible emitter and \<^verbatim>\<open>switchShow(false)\<close> hides it.
\<close>

theorem switchShow_needs_emitter_witness:
  "switchShow True fresh = Inl NotInitialized \<and>
   map_option ps_show (particleSystem live) = Some True \<and>
   map_option ps_show (particleSystem (projr (switchShow False live))) = Some False"
proof -
  have a: "particleSystem fresh = None"
    by (simp add: fresh_def constructor_def)
  have b: "particleSystem live = Some (projr (new_emitter chart fresh))"
    by (simp add: live_def init_fresh)
  have c: "ps_show (projr (new_emitter chart fresh)) = True"
    using fresh_parses by (simp add: new_emitter_def Let_def)
  from switchShow_needs_emitter [of True empty_scene unit_rectangle "[]" None fresh
      "projr (new_emitter chart fresh)"]
    switchShow_needs_emitter [of False empty_scene unit_rectangle "[]" None live
      "projr (new_emitter chart fresh)"]
    a b c
  show ?thesis by simp
qed

text \<open>
  C10: after \<^verbatim>\<open>clear()\<close> the updater returns the particle as it received it, whatever
  the grid holds, also for a grid with no rows, on which it would otherwise throw: the
  grid is not read.
\<close>

theorem stale_callback_noop:
  "and_then (clear s) (\<lambda>s'. particleCallback h s' p dt) = Inr p \<and>
   and_then (clear s) (\<lambda>s'. particleCallback h (s'\<lparr>data := grid\<rparr>) p dt) = Inr p"
  by (simp add: clear_def and_then_def particleCallback_def)

end
